theory Spec2Isabelle
  imports Main "HOL-Library.Sublist"
begin

section \<open>JavaScript values\<close>

text \<open>
  The adapter of \<^verbatim>\<open>src/index.ts\<close> is a single TypeScript module over two libraries:
  the MCP server SDK and the \<^verbatim>\<open>mysql2/promise\<close> driver.  The module is embedded as
  pure functions over an explicit world; the driver is an environment whose answers
  are parameters of the model.  Every \<^verbatim>\<open>await\<close> is a step of a sequential run and a
  rejected promise is an error value; one handler runs at a time, so the interleaving
  of concurrent requests is not part of the model.

  A JavaScript string is modelled as a \<^typ>\<open>string\<close> whose characters are the code
  units \<open>0\<close> to \<open>255\<close> (the Latin-1 range).  JSON-representable values are a datatype.
  A number in such a value is a finite double; it is carried as the decimal text that
  \<^verbatim>\<open>Number.prototype.toString\<close> gives it, which is also what \<^verbatim>\<open>JSON.stringify\<close> prints.
\<close>

datatype json =
    JNull
  | JBool bool
  | JNum string
  | JStr string
  | JArr "json list"
  | JObj "(string \<times> json) list"

text \<open>A thrown \<^verbatim>\<open>Error\<close> object: its name and its message.\<close>

datatype js_error = JsError (err_name: string) (err_message: string)

text \<open>\<^verbatim>\<open>Error.prototype.toString\<close>, which a template literal \<^verbatim>\<open>`${error}`\<close> calls.\<close>

fun error_toString :: "js_error \<Rightarrow> string" where
  "error_toString (JsError n m) =
     (if n = [] then m else if m = [] then n else n @ '': '' @ m)"

text \<open>\<^verbatim>\<open>typeof\<close> of a property read; \<open>None\<close> is \<^verbatim>\<open>undefined\<close>.\<close>

fun typeof_js :: "json option \<Rightarrow> string" where
  "typeof_js None = ''undefined''"
| "typeof_js (Some JNull) = ''object''"
| "typeof_js (Some (JBool b)) = ''boolean''"
| "typeof_js (Some (JNum n)) = ''number''"
| "typeof_js (Some (JStr s)) = ''string''"
| "typeof_js (Some (JArr xs)) = ''object''"
| "typeof_js (Some (JObj kvs)) = ''object''"

subsection \<open>String methods\<close>

text \<open>
  The code units below 256 that ECMAScript counts as WhiteSpace or LineTerminator:
  TAB, LF, VT, FF, CR, SP and NBSP.
\<close>

definition isWhiteSpace :: "char \<Rightarrow> bool" where
  "isWhiteSpace c = ((of_char c :: nat) \<in> {9, 10, 11, 12, 13, 32, 160})"

definition trim :: "string \<Rightarrow> string" where
  "trim s = rev (dropWhile isWhiteSpace (rev (dropWhile isWhiteSpace s)))"

text \<open>
  \<^verbatim>\<open>toLowerCase\<close> on the Latin-1 range: \<open>A\<close> to \<open>Z\<close> and the accented capitals
  \<open>0xC0\<close> to \<open>0xDE\<close> (the multiplication sign \<open>0xD7\<close> apart) move up by 32.
\<close>

definition toLowerCase_char :: "char \<Rightarrow> char" where
  "toLowerCase_char c =
     (let n = (of_char c :: nat)
      in if (65 \<le> n \<and> n \<le> 90) \<or> (192 \<le> n \<and> n \<le> 222 \<and> n \<noteq> 215)
         then char_of (n + 32) else c)"

definition toLowerCase :: "string \<Rightarrow> string" where
  "toLowerCase s = map toLowerCase_char s"

definition startsWith :: "string \<Rightarrow> string \<Rightarrow> bool" where
  "startsWith s p = (take (length p) s = p)"

text \<open>\<^verbatim>\<open>s.split(sep)\<close> for a one-character separator: never the empty array.\<close>

fun split_js :: "char \<Rightarrow> string \<Rightarrow> string list" where
  "split_js sep [] = [[]]"
| "split_js sep (c # cs) =
     (if c = sep then [] # split_js sep cs
      else (case split_js sep cs of
              [] \<Rightarrow> [[c]]
            | x # xs \<Rightarrow> (c # x) # xs))"

text \<open>\<^verbatim>\<open>Array.prototype.pop\<close>: the removed last element (\<^verbatim>\<open>undefined\<close> on the empty array)
  and the array that remains.\<close>

definition pop :: "'a list \<Rightarrow> 'a option \<times> 'a list" where
  "pop xs = (if xs = [] then (None, []) else (Some (last xs), butlast xs))"

text \<open>
  The result of \<^verbatim>\<open>parseInt\<close> is a double.  \<open>Exact v\<close> is the integer \<open>v\<close>, of magnitude at
  most \<open>2\<^sup>5\<^sup>3\<close>, which a double holds exactly; \<open>Rounded v\<close> is the double that the
  implementation gives for the larger integer \<open>v\<close>, whose value the model does not compute.
\<close>

datatype js_number = NaN | Exact int | Rounded int

text \<open>
  \<^verbatim>\<open>parseInt(s, 10)\<close>: leading white space is skipped, a sign is read, then the longest
  run of decimal digits.
\<close>

definition isDigit :: "char \<Rightarrow> bool" where
  "isDigit c = (48 \<le> (of_char c :: nat) \<and> (of_char c :: nat) \<le> 57)"

definition digits_value :: "string \<Rightarrow> int" where
  "digits_value ds = foldl (\<lambda>acc c. 10 * acc + (of_char c - 48)) 0 ds"

definition parseInt10 :: "string \<Rightarrow> js_number" where
  "parseInt10 s =
     (let t = dropWhile isWhiteSpace s;
          neg = (t \<noteq> [] \<and> hd t = CHR ''-'');
          u = (if t \<noteq> [] \<and> (hd t = CHR ''-'' \<or> hd t = CHR ''+'') then tl t else t);
          ds = takeWhile isDigit u;
          v = (if neg then - digits_value ds else digits_value ds)
      in if ds = [] then NaN
         else if \<bar>v\<bar> \<le> 2 ^ 53 then Exact v
         else Rounded v)"

subsection \<open>\<^verbatim>\<open>JSON.stringify(value, null, 2)\<close>\<close>

definition hex_digit :: "nat \<Rightarrow> char" where
  "hex_digit n = ''0123456789abcdef'' ! (n mod 16)"

definition quote_char :: "char \<Rightarrow> string" where
  "quote_char c =
     (let n = (of_char c :: nat)
      in if n = 8 then [CHR 0x5C, CHR ''b'']
         else if n = 9 then [CHR 0x5C, CHR ''t'']
         else if n = 10 then [CHR 0x5C, CHR ''n'']
         else if n = 12 then [CHR 0x5C, CHR ''f'']
         else if n = 13 then [CHR 0x5C, CHR ''r'']
         else if n = 34 then [CHR 0x5C, CHR 0x22]
         else if n = 92 then [CHR 0x5C, CHR 0x5C]
         else if n < 32 then [CHR 0x5C, CHR ''u'', CHR ''0'', CHR ''0'',
                              hex_digit (n div 16), hex_digit n]
         else [c])"

definition quoteJSONString :: "string \<Rightarrow> string" where
  "quoteJSONString s = [CHR 0x22] @ concat (map quote_char s) @ [CHR 0x22]"

fun join :: "string \<Rightarrow> string list \<Rightarrow> string" where
  "join sep [] = []"
| "join sep [x] = x"
| "join sep (x # y # ys) = x @ sep @ join sep (y # ys)"

text \<open>The first argument is the current indentation; the gap is two spaces.\<close>

fun serializeJSON :: "string \<Rightarrow> json \<Rightarrow> string" where
  "serializeJSON ind JNull = ''null''"
| "serializeJSON ind (JBool b) = (if b then ''true'' else ''false'')"
| "serializeJSON ind (JNum n) = n"
| "serializeJSON ind (JStr s) = quoteJSONString s"
| "serializeJSON ind (JArr xs) =
     (if xs = [] then ''[]''
      else ''['' @ [CHR 0x0A] @ (ind @ ''  '')
           @ join ('','' @ [CHR 0x0A] @ (ind @ ''  ''))
                  (map (serializeJSON (ind @ ''  '')) xs)
           @ [CHR 0x0A] @ ind @ '']'')"
| "serializeJSON ind (JObj kvs) =
     (if kvs = [] then ''{}''
      else ''{'' @ [CHR 0x0A] @ (ind @ ''  '')
           @ join ('','' @ [CHR 0x0A] @ (ind @ ''  ''))
                  (map (\<lambda>kv. quoteJSONString (fst kv) @ '': ''
                              @ serializeJSON (ind @ ''  '') (snd kv)) kvs)
           @ [CHR 0x0A] @ ind @ ''}'')"

definition JSON_stringify2 :: "json \<Rightarrow> string" where
  "JSON_stringify2 v = serializeJSON [] v"

section \<open>The environment: process variables, the MySQL driver, the console\<close>

text \<open>The variables read from \<^verbatim>\<open>process.env\<close>; \<open>None\<close> is \<^verbatim>\<open>undefined\<close>.\<close>

record env =
  MYSQL_HOST :: "string option"
  MYSQL_PORT :: "string option"
  MYSQL_USER :: "string option"
  MYSQL_PASS :: "string option"
  MYSQL_DB :: "string option"
  MYSQL_SOCKET :: "string option"
  MYSQL_POOL_LIMIT :: "string option"

text \<open>\<^verbatim>\<open>!x\<close> for a value of type \<^verbatim>\<open>string | undefined\<close>: undefined and the empty string are falsy.\<close>

definition falsy :: "string option \<Rightarrow> bool" where
  "falsy x = (x = None \<or> x = Some [])"

text \<open>
  \<^verbatim>\<open>mysql.PoolOptions\<close> as the constructor fills it: a field that is never assigned is
  \<open>None\<close>; \<open>connectionLimit\<close> and an assigned \<open>port\<close> hold the result of
  \<^verbatim>\<open>parseInt\<close>.
\<close>

record pool_config =
  user :: "string option"
  password :: "string option"
  database :: "string option"
  connectionLimit :: js_number
  socketPath :: "string option"
  host :: "string option"
  port :: "js_number option"

type_synonym conn = nat

text \<open>A bound parameter of \<^verbatim>\<open>execute\<close>; \<open>None\<close> is \<^verbatim>\<open>undefined\<close>.\<close>

type_synonym param = "json option"

text \<open>
  Every call the module makes into the driver, with what the driver answered.
  The second argument of \<open>EvExecute\<close> is the statement, the third the parameter array
  (\<open>None\<close> when \<^verbatim>\<open>execute\<close> is called with the statement alone).
\<close>

datatype event =
    EvCreatePool pool_config
  | EvGetConnection "js_error + conn"
  | EvExecute conn string "param list option" "js_error + json"
  | EvBeginTransaction conn "js_error option"
  | EvRollback conn "js_error option"
  | EvRelease conn
  | EvPoolEnd "js_error option"

text \<open>
  The driver and the database behind it are outside the repository.  Their answers are
  a parameter: each answer may depend on the whole history of earlier calls, so any
  step may fail at any time.  \<open>Inl\<close> (or \<open>Some\<close> for a call without a value) is a
  rejected promise.
\<close>

record driver =
  getConnection_reply :: "event list \<Rightarrow> js_error + conn"
  execute_reply :: "event list \<Rightarrow> conn \<Rightarrow> string \<Rightarrow> param list option \<Rightarrow> js_error + json"
  beginTransaction_reply :: "event list \<Rightarrow> conn \<Rightarrow> js_error option"
  rollback_reply :: "event list \<Rightarrow> conn \<Rightarrow> js_error option"
  end_reply :: "event list \<Rightarrow> js_error option"

datatype log_entry =
    LogText string
  | LogError string js_error

record world =
  events :: "event list"
  console :: "log_entry list"

definition emit :: "world \<Rightarrow> event \<Rightarrow> world" where
  "emit w ev = w\<lparr>events := events w @ [ev]\<rparr>"

definition console_write :: "world \<Rightarrow> log_entry \<Rightarrow> world" where
  "console_write w l = w\<lparr>console := console w @ [l]\<rparr>"

definition getConnection :: "driver \<Rightarrow> world \<Rightarrow> (js_error + conn) \<times> world" where
  "getConnection drv w =
     (let r = getConnection_reply drv (events w) in (r, emit w (EvGetConnection r)))"

definition execute :: "driver \<Rightarrow> world \<Rightarrow> conn \<Rightarrow> string \<Rightarrow> param list option
                       \<Rightarrow> (js_error + json) \<times> world" where
  "execute drv w c sql ps =
     (let r = execute_reply drv (events w) c sql ps in (r, emit w (EvExecute c sql ps r)))"

definition beginTransaction :: "driver \<Rightarrow> world \<Rightarrow> conn \<Rightarrow> js_error option \<times> world" where
  "beginTransaction drv w c =
     (let r = beginTransaction_reply drv (events w) c in (r, emit w (EvBeginTransaction c r)))"

definition rollback :: "driver \<Rightarrow> world \<Rightarrow> conn \<Rightarrow> js_error option \<times> world" where
  "rollback drv w c =
     (let r = rollback_reply drv (events w) c in (r, emit w (EvRollback c r)))"

definition release :: "world \<Rightarrow> conn \<Rightarrow> world" where
  "release w c = emit w (EvRelease c)"

definition pool_end :: "driver \<Rightarrow> world \<Rightarrow> js_error option \<times> world" where
  "pool_end drv w = (let r = end_reply drv (events w) in (r, emit w (EvPoolEnd r)))"

section \<open>Startup: validation of the environment and the pool configuration\<close>

text \<open>Lines 36 to 47: the first failing check throws.\<close>

definition validateEnv :: "env \<Rightarrow> js_error option" where
  "validateEnv e =
     (if falsy (MYSQL_USER e) then
        Some (JsError ''Error'' ''MYSQL_USER environment variable is required'')
      else if falsy (MYSQL_PASS e) then
        Some (JsError ''Error'' ''MYSQL_PASS environment variable is required'')
      else if falsy (MYSQL_DB e) then
        Some (JsError ''Error'' ''MYSQL_DB environment variable is required'')
      else if falsy (MYSQL_SOCKET e) \<and> (falsy (MYSQL_HOST e) \<or> falsy (MYSQL_PORT e)) then
        Some (JsError ''Error''
          ''Either MYSQL_SOCKET or both MYSQL_HOST and MYSQL_PORT environment variables are required'')
      else None)"

text \<open>\<^verbatim>\<open>ToString\<close> of a \<^verbatim>\<open>string | undefined\<close>, as \<^verbatim>\<open>parseInt\<close> applies it to its argument.\<close>

definition toString_opt :: "string option \<Rightarrow> string" where
  "toString_opt x = (case x of None \<Rightarrow> ''undefined'' | Some s \<Rightarrow> s)"

text \<open>Lines 54 to 67; \<^verbatim>\<open>MYSQL_POOL_LIMIT\<close> defaults to \<^verbatim>\<open>'10'\<close> when undefined.\<close>

definition poolConfig :: "env \<Rightarrow> pool_config" where
  "poolConfig e =
     (let config = \<lparr> user = MYSQL_USER e,
                      password = MYSQL_PASS e,
                      database = MYSQL_DB e,
                      connectionLimit =
                        parseInt10 (case MYSQL_POOL_LIMIT e of None \<Rightarrow> ''10'' | Some l \<Rightarrow> l),
                      socketPath = None,
                      host = None,
                      port = None \<rparr>
      in if \<not> falsy (MYSQL_SOCKET e) then config\<lparr>socketPath := MYSQL_SOCKET e\<rparr>
         else config\<lparr>host := MYSQL_HOST e,
                     port := Some (parseInt10 (toString_opt (MYSQL_PORT e)))\<rparr>)"

text \<open>
  The module from top to bottom: validation, then \<^verbatim>\<open>new MampMysqlServer()\<close>, whose
  constructor creates the pool.  Registering the handlers and connecting the transport
  make no driver call.
\<close>

definition startup :: "env \<Rightarrow> world \<Rightarrow> (js_error + unit) \<times> world" where
  "startup e w =
     (case validateEnv e of
        Some err \<Rightarrow> (Inl err, w)
      | None \<Rightarrow> (Inr (), emit w (EvCreatePool (poolConfig e))))"

section \<open>The connection manager\<close>

text \<open>Lines 98 to 101.\<close>

definition shutdown :: "driver \<Rightarrow> world \<Rightarrow> string \<Rightarrow> js_error option \<times> world" where
  "shutdown drv w signal =
     pool_end drv (console_write w (LogText (''Received '' @ signal @ ''. Shutting down...'')))"

text \<open>Lines 103 to 111: the \<^verbatim>\<open>finally\<close> releases on both outcomes.\<close>

definition executeQuery :: "driver \<Rightarrow> world \<Rightarrow> string \<Rightarrow> param list \<Rightarrow> (js_error + json) \<times> world" where
  "executeQuery drv w sql params =
     (case getConnection drv w of
        (Inl e, w1) \<Rightarrow> (Inl e, w1)
      | (Inr connection, w1) \<Rightarrow>
          (case execute drv w1 connection sql (Some params) of
             (r, w2) \<Rightarrow> (r, release w2 connection)))"

definition READ_ONLY :: string where
  "READ_ONLY = ''SET SESSION TRANSACTION READ ONLY''"

definition READ_WRITE :: string where
  "READ_WRITE = ''SET SESSION TRANSACTION READ WRITE''"

text \<open>The \<^verbatim>\<open>try\<close> block of \<^verbatim>\<open>executeReadOnlyQuery\<close>, lines 116 to 131: the first failing await
  leaves the block with its error.\<close>

definition readOnlyTry :: "driver \<Rightarrow> world \<Rightarrow> conn \<Rightarrow> string \<Rightarrow> (js_error + json) \<times> world" where
  "readOnlyTry drv w connection sql =
     (case execute drv w connection READ_ONLY None of
        (Inl e, w1) \<Rightarrow> (Inl e, w1)
      | (Inr _, w1) \<Rightarrow>
     (case beginTransaction drv w1 connection of
        (Some e, w2) \<Rightarrow> (Inl e, w2)
      | (None, w2) \<Rightarrow>
     (case execute drv w2 connection sql None of
        (Inl e, w3) \<Rightarrow> (Inl e, w3)
      | (Inr rows, w3) \<Rightarrow>
     (case rollback drv w3 connection of
        (Some e, w4) \<Rightarrow> (Inl e, w4)
      | (None, w4) \<Rightarrow>
     (case execute drv w4 connection READ_WRITE None of
        (Inl e, w5) \<Rightarrow> (Inl e, w5)
      | (Inr _, w5) \<Rightarrow> (Inr rows, w5))))))"

text \<open>
  Lines 113 to 138.  The \<^verbatim>\<open>catch\<close> block awaits a rollback and rethrows; when that
  rollback itself rejects, its error is the one that leaves the block.  The
  \<^verbatim>\<open>finally\<close> block releases the connection.  A failed \<^verbatim>\<open>getConnection\<close> is outside the
  \<^verbatim>\<open>try\<close>.
\<close>

definition executeReadOnlyQuery :: "driver \<Rightarrow> world \<Rightarrow> string \<Rightarrow> (js_error + json) \<times> world" where
  "executeReadOnlyQuery drv w sql =
     (case getConnection drv w of
        (Inl e, w1) \<Rightarrow> (Inl e, w1)
      | (Inr connection, w1) \<Rightarrow>
          (case readOnlyTry drv w1 connection sql of
             (Inr rows, w2) \<Rightarrow> (Inr rows, release w2 connection)
           | (Inl error, w2) \<Rightarrow>
               (case rollback drv w2 connection of
                  (Some e', w3) \<Rightarrow> (Inl e', release w3 connection)
                | (None, w3) \<Rightarrow> (Inl error, release w3 connection))))"

section \<open>The resource provider\<close>

text \<open>
  \<^verbatim>\<open>new URL(uri)\<close> is the platform's parser, not code of the repository: it is a
  parameter of the handler, which either throws or gives an object of which the
  handler reads \<open>pathname\<close> only.
\<close>

record url =
  hostname :: string
  pathname :: string

type_synonym url_parser = "string \<Rightarrow> js_error + url"

record resource_content =
  uri :: string
  mimeType :: string
  resource_text :: string

record read_resource_result =
  contents :: "resource_content list"

definition COLUMNS_SQL :: string where
  "COLUMNS_SQL = ''SELECT COLUMN_NAME, DATA_TYPE FROM information_schema.columns WHERE table_schema = ? AND table_name = ?''"

text \<open>The \<^verbatim>\<open>try\<close> block of the read-resource handler, lines 182 to 204.\<close>

definition readResourceTry :: "url_parser \<Rightarrow> env \<Rightarrow> driver \<Rightarrow> world \<Rightarrow> string
                               \<Rightarrow> (js_error + read_resource_result) \<times> world" where
  "readResourceTry URL_new e drv w request_uri =
     (case URL_new request_uri of
        Inl err \<Rightarrow> (Inl err, w)
      | Inr resourceUrl \<Rightarrow>
          (let pathComponents = split_js CHR ''/'' (pathname resourceUrl);
               (schema, pathComponents1) = pop pathComponents;
               (tableName, pathComponents2) = pop pathComponents1
           in if schema \<noteq> Some ''schema'' then
                (Inl (JsError ''Error'' ''Invalid resource URI''), w)
              else
                (case executeQuery drv w COLUMNS_SQL
                        [map_option JStr (MYSQL_DB e), map_option JStr tableName] of
                   (Inl err, w1) \<Rightarrow> (Inl err, w1)
                 | (Inr results, w1) \<Rightarrow>
                     (Inr \<lparr> contents = [\<lparr> uri = request_uri,
                                           mimeType = ''application/json'',
                                           resource_text = JSON_stringify2 results \<rparr>] \<rparr>, w1))))"

text \<open>Lines 180 to 209: the \<^verbatim>\<open>catch\<close> block logs the error and rethrows it.\<close>

definition readResource :: "url_parser \<Rightarrow> env \<Rightarrow> driver \<Rightarrow> world \<Rightarrow> string
                            \<Rightarrow> (js_error + read_resource_result) \<times> world" where
  "readResource URL_new e drv w request_uri =
     (case readResourceTry URL_new e drv w request_uri of
        (Inl error, w1) \<Rightarrow>
          (Inl error, console_write w1 (LogError ''Error in ReadResourceRequestSchema:'' error))
      | (Inr r, w1) \<Rightarrow> (Inr r, w1))"

section \<open>The tool provider\<close>

datatype error_code = MethodNotFound | InvalidParams | InvalidRequest

datatype mcp_error = McpError error_code string

record call_tool_request =
  name :: string
  arguments :: "(string \<rightharpoonup> json) option"

record content_block =
  type :: string
  "text" :: string

text \<open>The \<open>isError\<close> field is absent (\<open>None\<close>) from the success response.\<close>

record call_tool_result =
  content :: "content_block list"
  isError :: "bool option"

text \<open>
  Lines 232 to 274.  \<open>Inl\<close> is a thrown \<^verbatim>\<open>McpError\<close>, a protocol-level fault; \<open>Inr\<close> is a
  returned tool response.  The SDK's request schema makes \<open>name\<close> a string and
  \<open>arguments\<close> an object or absent, so \<^verbatim>\<open>!args\<close> holds exactly when the arguments are
  absent.
\<close>

definition callTool :: "driver \<Rightarrow> world \<Rightarrow> call_tool_request
                        \<Rightarrow> (mcp_error + call_tool_result) \<times> world" where
  "callTool drv w request =
     (if name request \<noteq> ''mysql_query'' then
        (Inl (McpError MethodNotFound (''Unknown tool: '' @ name request)), w)
      else
        (case arguments request of
           None \<Rightarrow> (Inl (McpError InvalidParams ''Invalid SQL query''), w)
         | Some args \<Rightarrow>
             (if typeof_js (args ''sql'') \<noteq> ''string'' then
                (Inl (McpError InvalidParams ''Invalid SQL query''), w)
              else
                (case args ''sql'' of
                   Some (JStr sql) \<Rightarrow>
                     (if \<not> startsWith (toLowerCase (trim sql)) ''select'' then
                        (Inl (McpError InvalidRequest ''Only SELECT queries are allowed''), w)
                      else
                        (case executeReadOnlyQuery drv w sql of
                           (Inr results, w1) \<Rightarrow>
                             (Inr \<lparr> content = [\<lparr> type = ''text'',
                                                  text = JSON_stringify2 results \<rparr>],
                                    isError = None \<rparr>, w1)
                         | (Inl error, w1) \<Rightarrow>
                             (Inr \<lparr> content = [\<lparr> type = ''text'',
                                                  text = ''MySQL query error: ''
                                                         @ error_toString error \<rparr>],
                                    isError = Some True \<rparr>, w1)))
                 | _ \<Rightarrow> (Inl (McpError InvalidParams ''Invalid SQL query''), w)))))"

section \<open>Observations on a history of driver calls\<close>

definition rollback_count :: "event list \<Rightarrow> nat" where
  "rollback_count evs = length (filter (\<lambda>ev. case ev of EvRollback c r \<Rightarrow> True | _ \<Rightarrow> False) evs)"

definition release_count :: "event list \<Rightarrow> nat" where
  "release_count evs = length (filter (\<lambda>ev. case ev of EvRelease c \<Rightarrow> True | _ \<Rightarrow> False) evs)"

definition pool_end_count :: "event list \<Rightarrow> nat" where
  "pool_end_count evs = length (filter (\<lambda>ev. case ev of EvPoolEnd r \<Rightarrow> True | _ \<Rightarrow> False) evs)"

text \<open>
  The access mode of a connection's session after a history: MySQL starts a session
  read-write, and each of the two \<^verbatim>\<open>SET SESSION TRANSACTION\<close> statements of the
  module, when it succeeds on that connection, sets the mode.
\<close>

fun session_step :: "conn \<Rightarrow> bool \<Rightarrow> event \<Rightarrow> bool" where
  "session_step c ro (EvExecute c' sql ps (Inr v)) =
     (if c' = c \<and> sql = READ_ONLY then True
      else if c' = c \<and> sql = READ_WRITE then False
      else ro)"
| "session_step c ro ev = ro"

definition session_read_only :: "conn \<Rightarrow> event list \<Rightarrow> bool" where
  "session_read_only c evs = foldl (session_step c) False evs"

text \<open>Some connection goes back to the pool while its session is read-only.\<close>

fun released_read_only :: "event list \<Rightarrow> event list \<Rightarrow> bool" where
  "released_read_only before [] = False"
| "released_read_only before (ev # evs) =
     ((case ev of EvRelease c \<Rightarrow> session_read_only c before | _ \<Rightarrow> False)
      \<or> released_read_only (before @ [ev]) evs)"

section \<open>Sample environments\<close>

text \<open>
  A driver that hands out connection \<open>0\<close>, answers each statement by its text alone,
  and never fails to begin, roll back or end.
\<close>

definition scripted_driver :: "(string \<Rightarrow> js_error + json) \<Rightarrow> driver" where
  "scripted_driver answer =
     \<lparr> getConnection_reply = (\<lambda>h. Inr 0),
       execute_reply = (\<lambda>h c sql ps. answer sql),
       beginTransaction_reply = (\<lambda>h c. None),
       rollback_reply = (\<lambda>h c. None),
       end_reply = (\<lambda>h. None) \<rparr>"

text \<open>Every statement succeeds with no rows.\<close>

definition no_rows :: "string \<Rightarrow> js_error + json" where
  "no_rows sql = Inr (JArr [])"

text \<open>The statement \<open>bad\<close> is rejected with \<open>err\<close>; every other statement gives no rows.\<close>

definition failing_on :: "string \<Rightarrow> js_error \<Rightarrow> string \<Rightarrow> js_error + json" where
  "failing_on bad err sql = (if sql = bad then Inl err else Inr (JArr []))"

definition world0 :: world where
  "world0 = \<lparr> events = [], console = [] \<rparr>"

text \<open>
  A parser for URIs of the shape \<^verbatim>\<open>scheme://host/path\<close>, to instantiate the
  parser parameter on concrete inputs.
\<close>

definition sample_URL :: url_parser where
  "sample_URL s =
     (let rest = dropWhile (\<lambda>c. c \<noteq> CHR '':'') s
      in if take 3 rest = ''://'' then
           Inr \<lparr> hostname = takeWhile (\<lambda>c. c \<noteq> CHR ''/'') (drop 3 rest),
                 pathname = dropWhile (\<lambda>c. c \<noteq> CHR ''/'') (drop 3 rest) \<rparr>
         else Inl (JsError ''TypeError'' ''Invalid URL''))"

section \<open>Basic facts\<close>

lemma events_emit: "events (emit w ev) = events w @ [ev]"
  by (simp add: emit_def)

lemma events_console_write: "events (console_write w l) = events w"
  by (simp add: console_write_def)

lemma typeof_js_string: "typeof_js x = ''string'' \<longleftrightarrow> (\<exists>s. x = Some (JStr s))"
  by (cases x rule: typeof_js.cases) simp_all

section \<open>The tool call: the gates\<close>

text \<open>
  Claim C5.  A call whose tool name is not \<^verbatim>\<open>mysql_query\<close> fails with MethodNotFound,
  whatever its arguments are; a call to \<^verbatim>\<open>mysql_query\<close> whose arguments are absent or
  whose \<open>sql\<close> field is not a string fails with InvalidParams.  The name is checked
  first.  Neither failure touches the world.
\<close>

theorem callTool_checks_name_then_arguments:
  "(name request \<noteq> ''mysql_query'' \<longrightarrow>
      callTool drv w request =
        (Inl (McpError MethodNotFound (''Unknown tool: '' @ name request)), w))
   \<and> (name request = ''mysql_query''
        \<and> (arguments request = None
            \<or> (\<exists>args. arguments request = Some args \<and> (\<forall>s. args ''sql'' \<noteq> Some (JStr s)))) \<longrightarrow>
      callTool drv w request = (Inl (McpError InvalidParams ''Invalid SQL query''), w))"
proof (intro conjI impI)
  assume "name request \<noteq> ''mysql_query''"
  then show "callTool drv w request =
        (Inl (McpError MethodNotFound (''Unknown tool: '' @ name request)), w)"
    by (simp add: callTool_def)
next
  assume a: "name request = ''mysql_query''
        \<and> (arguments request = None
            \<or> (\<exists>args. arguments request = Some args \<and> (\<forall>s. args ''sql'' \<noteq> Some (JStr s))))"
  show "callTool drv w request = (Inl (McpError InvalidParams ''Invalid SQL query''), w)"
  proof (cases "arguments request")
    case None
    with a show ?thesis by (simp add: callTool_def)
  next
    case (Some args)
    with a have "\<forall>s. args ''sql'' \<noteq> Some (JStr s)" by simp
    then have "typeof_js (args ''sql'') \<noteq> ''string''"
      by (simp add: typeof_js_string)
    with a Some show ?thesis by (simp add: callTool_def)
  qed
qed

theorem callTool_checks_name_then_arguments_witness:
  "callTool (scripted_driver no_rows) world0 \<lparr>name = ''drop_table'', arguments = None\<rparr>
     = (Inl (McpError MethodNotFound ''Unknown tool: drop_table''), world0)
   \<and> callTool (scripted_driver no_rows) world0 \<lparr>name = ''mysql_query'', arguments = None\<rparr>
     = (Inl (McpError InvalidParams ''Invalid SQL query''), world0)
   \<and> callTool (scripted_driver no_rows) world0
        \<lparr>name = ''mysql_query'', arguments = Some [''sql'' \<mapsto> JNum ''1'']\<rparr>
     = (Inl (McpError InvalidParams ''Invalid SQL query''), world0)"
  using callTool_checks_name_then_arguments
          [of "\<lparr>name = ''drop_table'', arguments = None\<rparr>" "scripted_driver no_rows" world0]
        callTool_checks_name_then_arguments
          [of "\<lparr>name = ''mysql_query'', arguments = None\<rparr>" "scripted_driver no_rows" world0]
        callTool_checks_name_then_arguments
          [of "\<lparr>name = ''mysql_query'', arguments = Some [''sql'' \<mapsto> JNum ''1'']\<rparr>"
              "scripted_driver no_rows" world0]
  by simp

text \<open>
  Claim C3.  For a call to \<^verbatim>\<open>mysql_query\<close> whose \<open>sql\<close> argument is a string that, trimmed
  and lowercased, does not start with \<^verbatim>\<open>select\<close>, the handler throws the InvalidRequest
  fault and leaves the world as it was: no driver call is made.
\<close>

theorem callTool_rejects_non_select:
  assumes "\<not> startsWith (toLowerCase (trim sql)) ''select''"
      and "name request = ''mysql_query''"
      and "arguments request = Some args"
      and "args ''sql'' = Some (JStr sql)"
  shows "callTool drv w request
           = (Inl (McpError InvalidRequest ''Only SELECT queries are allowed''), w)"
  using assms by (simp add: callTool_def)

theorem callTool_rejects_non_select_witness:
  "\<not> startsWith (toLowerCase (trim ''  Delete FROM orders'')) ''select''
   \<and> callTool (scripted_driver no_rows) world0
        \<lparr>name = ''mysql_query'', arguments = Some [''sql'' \<mapsto> JStr ''  Delete FROM orders'']\<rparr>
     = (Inl (McpError InvalidRequest ''Only SELECT queries are allowed''), world0)"
proof -
  have h: "\<not> startsWith (toLowerCase (trim ''  Delete FROM orders'')) ''select''"
    by code_simp
  show ?thesis
    using h callTool_rejects_non_select
              [OF h, of "\<lparr>name = ''mysql_query'',
                           arguments = Some [''sql'' \<mapsto> JStr ''  Delete FROM orders'']\<rparr>"
                  "[''sql'' \<mapsto> JStr ''  Delete FROM orders'']" "scripted_driver no_rows" world0]
    by simp
qed

lemma suffix_error_message: "suffix (err_message e) (pre @ error_toString e)"
  by (cases e) (simp add: suffix_def)

text \<open>
  Claim C4.  For a call that passes the gates, the handler never throws: it returns a
  tool response.  When the read-only execution raises an error, the response is one
  text block holding \<^verbatim>\<open>MySQL query error: \<close> followed by the error's string form, which
  ends with the error's message, and \<open>isError\<close> is set.
\<close>

theorem callTool_query_failure_is_tool_response:
  assumes gate: "startsWith (toLowerCase (trim sql)) ''select''"
      and nm: "name request = ''mysql_query''"
      and args: "arguments request = Some args"
      and sql: "args ''sql'' = Some (JStr sql)"
  shows "(\<exists>r. fst (callTool drv w request) = Inr r)
         \<and> (\<forall>e w'. executeReadOnlyQuery drv w sql = (Inl e, w') \<longrightarrow>
               callTool drv w request
                 = (Inr \<lparr>content = [\<lparr>type = ''text'',
                                      text = ''MySQL query error: '' @ error_toString e\<rparr>],
                         isError = Some True\<rparr>, w')
               \<and> suffix (err_message e) (''MySQL query error: '' @ error_toString e))"
proof (intro conjI allI impI)
  show "\<exists>r. fst (callTool drv w request) = Inr r"
    using assms by (simp add: callTool_def split: prod.splits sum.splits)
next
  fix e w'
  assume "executeReadOnlyQuery drv w sql = (Inl e, w')"
  with assms show "callTool drv w request
                 = (Inr \<lparr>content = [\<lparr>type = ''text'',
                                      text = ''MySQL query error: '' @ error_toString e\<rparr>],
                         isError = Some True\<rparr>, w')"
    by (simp add: callTool_def)
next
  fix e w'
  show "suffix (err_message e) (''MySQL query error: '' @ error_toString e)"
    by (rule suffix_error_message)
qed

theorem callTool_query_failure_is_tool_response_witness:
  "startsWith (toLowerCase (trim ''SELECT * FROM nonexistent_table'')) ''select''
   \<and> fst (executeReadOnlyQuery
        (scripted_driver (failing_on ''SELECT * FROM nonexistent_table''
           (JsError ''Error'' ''Table shop.nonexistent_table does not exist'')))
        world0 ''SELECT * FROM nonexistent_table'')
      = Inl (JsError ''Error'' ''Table shop.nonexistent_table does not exist'')
   \<and> fst (callTool
        (scripted_driver (failing_on ''SELECT * FROM nonexistent_table''
           (JsError ''Error'' ''Table shop.nonexistent_table does not exist'')))
        world0
        \<lparr>name = ''mysql_query'',
          arguments = Some [''sql'' \<mapsto> JStr ''SELECT * FROM nonexistent_table'']\<rparr>)
      = Inr \<lparr>content = [\<lparr>type = ''text'',
               text = ''MySQL query error: Error: Table shop.nonexistent_table does not exist''\<rparr>],
             isError = Some True\<rparr>"
proof -
  let ?q = "''SELECT * FROM nonexistent_table''"
  let ?d = "scripted_driver (failing_on ?q
              (JsError ''Error'' ''Table shop.nonexistent_table does not exist''))"
  let ?rq = "\<lparr>name = ''mysql_query'', arguments = Some [''sql'' \<mapsto> JStr ?q]\<rparr>"
  have g: "startsWith (toLowerCase (trim ?q)) ''select''"
    by code_simp
  have f: "fst (executeReadOnlyQuery ?d world0 ?q)
             = Inl (JsError ''Error'' ''Table shop.nonexistent_table does not exist'')"
    by code_simp
  obtain w' where run: "executeReadOnlyQuery ?d world0 ?q
             = (Inl (JsError ''Error'' ''Table shop.nonexistent_table does not exist''), w')"
    using f by (cases "executeReadOnlyQuery ?d world0 ?q") simp
  from callTool_query_failure_is_tool_response
         [OF g, of ?rq "[''sql'' \<mapsto> JStr ?q]" ?d world0] run
  have "fst (callTool ?d world0 ?rq) = Inr \<lparr>content = [\<lparr>type = ''text'',
               text = ''MySQL query error: Error: Table shop.nonexistent_table does not exist''\<rparr>],
             isError = Some True\<rparr>"
    by simp
  with g f show ?thesis by simp
qed

text \<open>
  When the statement itself is rejected and the rollback of the catch block succeeds,
  the error raised is the driver's error for the statement.
\<close>

lemma executeReadOnlyQuery_raises_query_error:
  assumes "getConnection_reply drv (events w) = Inr c"
      and "execute_reply drv (events w @ [EvGetConnection (Inr c)]) c READ_ONLY None = Inr v"
      and "beginTransaction_reply drv
             (events w @ [EvGetConnection (Inr c), EvExecute c READ_ONLY None (Inr v)]) c = None"
      and "execute_reply drv
             (events w @ [EvGetConnection (Inr c), EvExecute c READ_ONLY None (Inr v),
                          EvBeginTransaction c None]) c sql None = Inl e"
      and "rollback_reply drv
             (events w @ [EvGetConnection (Inr c), EvExecute c READ_ONLY None (Inr v),
                          EvBeginTransaction c None, EvExecute c sql None (Inl e)]) c = None"
  shows "fst (executeReadOnlyQuery drv w sql) = Inl e"
  using assms
  by (simp add: executeReadOnlyQuery_def getConnection_def readOnlyTry_def execute_def
        beginTransaction_def rollback_def Let_def emit_def release_def)

section \<open>Startup\<close>

text \<open>
  Claim C7.  When one of \<^verbatim>\<open>MYSQL_USER\<close>, \<^verbatim>\<open>MYSQL_PASS\<close>, \<^verbatim>\<open>MYSQL_DB\<close> is missing (undefined
  or empty), or when \<^verbatim>\<open>MYSQL_SOCKET\<close> is missing and so is one of \<^verbatim>\<open>MYSQL_HOST\<close> and
  \<^verbatim>\<open>MYSQL_PORT\<close>, the module throws and the world is as before: no pool was created and
  no driver call was made.
\<close>

theorem startup_fails_before_pool:
  assumes "falsy (MYSQL_USER e) \<or> falsy (MYSQL_PASS e) \<or> falsy (MYSQL_DB e)
           \<or> (falsy (MYSQL_SOCKET e) \<and> (falsy (MYSQL_HOST e) \<or> falsy (MYSQL_PORT e)))"
  shows "\<exists>err. startup e w = (Inl err, w)"
proof -
  from assms have "validateEnv e \<noteq> None"
    by (auto simp: validateEnv_def)
  then obtain err where "validateEnv e = Some err" by blast
  then show ?thesis by (simp add: startup_def)
qed

theorem startup_fails_before_pool_witness:
  "(\<exists>err. startup \<lparr>MYSQL_HOST = Some ''localhost'', MYSQL_PORT = Some ''8889'',
                    MYSQL_USER = Some ''root'', MYSQL_PASS = None, MYSQL_DB = Some ''shop'',
                    MYSQL_SOCKET = None, MYSQL_POOL_LIMIT = None\<rparr> world0 = (Inl err, world0))
   \<and> (\<exists>err. startup \<lparr>MYSQL_HOST = Some ''localhost'', MYSQL_PORT = None,
                    MYSQL_USER = Some ''root'', MYSQL_PASS = Some ''root'', MYSQL_DB = Some ''shop'',
                    MYSQL_SOCKET = None, MYSQL_POOL_LIMIT = None\<rparr> world0 = (Inl err, world0))"
  using startup_fails_before_pool
          [of "\<lparr>MYSQL_HOST = Some ''localhost'', MYSQL_PORT = Some ''8889'',
                    MYSQL_USER = Some ''root'', MYSQL_PASS = None, MYSQL_DB = Some ''shop'',
                    MYSQL_SOCKET = None, MYSQL_POOL_LIMIT = None\<rparr>" world0]
        startup_fails_before_pool
          [of "\<lparr>MYSQL_HOST = Some ''localhost'', MYSQL_PORT = None,
                    MYSQL_USER = Some ''root'', MYSQL_PASS = Some ''root'', MYSQL_DB = Some ''shop'',
                    MYSQL_SOCKET = None, MYSQL_POOL_LIMIT = None\<rparr>" world0]
  by (simp add: falsy_def)

text \<open>Otherwise the module goes on to create the pool, with the configuration of
  \<open>poolConfig\<close>.\<close>

lemma startup_creates_pool:
  assumes "\<not> falsy (MYSQL_USER e)" "\<not> falsy (MYSQL_PASS e)" "\<not> falsy (MYSQL_DB e)"
      and "\<not> falsy (MYSQL_SOCKET e) \<or> (\<not> falsy (MYSQL_HOST e) \<and> \<not> falsy (MYSQL_PORT e))"
  shows "startup e w = (Inr (), emit w (EvCreatePool (poolConfig e)))"
  using assms by (auto simp: startup_def validateEnv_def)

text \<open>
  Claim C9.  When \<^verbatim>\<open>MYSQL_SOCKET\<close> is supplied, the pool configuration has the socket
  path and neither host nor port, whatever \<^verbatim>\<open>MYSQL_HOST\<close> and \<^verbatim>\<open>MYSQL_PORT\<close> hold; and
  every environment that passes the validation gives a configuration with exactly one
  addressing mode: the socket path alone, or host and port alone.
\<close>

theorem poolConfig_socket_only:
  "(\<not> falsy (MYSQL_SOCKET e) \<longrightarrow>
      socketPath (poolConfig e) = MYSQL_SOCKET e
      \<and> host (poolConfig e) = None \<and> port (poolConfig e) = None)
   \<and> (validateEnv e = None \<longrightarrow>
        (socketPath (poolConfig e) \<noteq> None
           \<and> host (poolConfig e) = None \<and> port (poolConfig e) = None)
        \<or> (socketPath (poolConfig e) = None
           \<and> host (poolConfig e) \<noteq> None \<and> port (poolConfig e) \<noteq> None))"
  by (auto simp: poolConfig_def validateEnv_def falsy_def Let_def split: if_splits)

theorem poolConfig_socket_only_witness:
  "validateEnv \<lparr>MYSQL_HOST = Some ''localhost'', MYSQL_PORT = Some ''8889'',
                 MYSQL_USER = Some ''root'', MYSQL_PASS = Some ''root'', MYSQL_DB = Some ''shop'',
                 MYSQL_SOCKET = Some ''/Applications/MAMP/tmp/mysql/mysql.sock'',
                 MYSQL_POOL_LIMIT = None\<rparr> = None
   \<and> poolConfig \<lparr>MYSQL_HOST = Some ''localhost'', MYSQL_PORT = Some ''8889'',
                 MYSQL_USER = Some ''root'', MYSQL_PASS = Some ''root'', MYSQL_DB = Some ''shop'',
                 MYSQL_SOCKET = Some ''/Applications/MAMP/tmp/mysql/mysql.sock'',
                 MYSQL_POOL_LIMIT = None\<rparr>
     = \<lparr>user = Some ''root'', password = Some ''root'', database = Some ''shop'',
        connectionLimit = Exact 10,
        socketPath = Some ''/Applications/MAMP/tmp/mysql/mysql.sock'',
        host = None, port = None\<rparr>"
proof -
  let ?e = "\<lparr>MYSQL_HOST = Some ''localhost'', MYSQL_PORT = Some ''8889'',
                 MYSQL_USER = Some ''root'', MYSQL_PASS = Some ''root'', MYSQL_DB = Some ''shop'',
                 MYSQL_SOCKET = Some ''/Applications/MAMP/tmp/mysql/mysql.sock'',
                 MYSQL_POOL_LIMIT = None\<rparr>"
  have v: "validateEnv ?e = None"
    by (simp add: validateEnv_def falsy_def)
  have s: "\<not> falsy (MYSQL_SOCKET ?e)"
    by (simp add: falsy_def)
  have l: "connectionLimit (poolConfig ?e) = Exact 10"
    by code_simp
  have u: "user (poolConfig ?e) = Some ''root'' \<and> password (poolConfig ?e) = Some ''root''
           \<and> database (poolConfig ?e) = Some ''shop''"
    by (simp add: poolConfig_def Let_def)
  from poolConfig_socket_only [of ?e] s
  have "socketPath (poolConfig ?e) = Some ''/Applications/MAMP/tmp/mysql/mysql.sock''
        \<and> host (poolConfig ?e) = None \<and> port (poolConfig ?e) = None"
    by simp
  with l u have "poolConfig ?e = \<lparr>user = Some ''root'', password = Some ''root'', database = Some ''shop'',
        connectionLimit = Exact 10,
        socketPath = Some ''/Applications/MAMP/tmp/mysql/mysql.sock'',
        host = None, port = None\<rparr>"
    by (cases "poolConfig ?e") simp
  with v show ?thesis by simp
qed

section \<open>Shutdown\<close>

text \<open>
  Claim C8, as stated, fails: \<open>shutdown\<close> has no guard, and a second invocation ends the
  pool a second time.
\<close>

theorem shutdown_twice_counterexample:
  "pool_end_count (events (snd (shutdown (scripted_driver no_rows) world0 ''SIGINT''))) = 1
   \<and> pool_end_count (events (snd (shutdown (scripted_driver no_rows)
         (snd (shutdown (scripted_driver no_rows) world0 ''SIGINT'')) ''SIGTERM''))) = 2"
  by (simp add: shutdown_def pool_end_def Let_def emit_def console_write_def world0_def
      pool_end_count_def scripted_driver_def)

text \<open>
  Claim C8, amended.  Every invocation of \<open>shutdown\<close> writes one line naming the signal
  to the console and calls \<^verbatim>\<open>pool.end()\<close> exactly once, whatever happened before: two
  invocations call it twice.
\<close>

theorem shutdown_calls_end_each_time:
  "events (snd (shutdown drv w signal)) = events w @ [EvPoolEnd (end_reply drv (events w))]
   \<and> console (snd (shutdown drv w signal))
       = console w @ [LogText (''Received '' @ signal @ ''. Shutting down...'')]
   \<and> pool_end_count (events (snd (shutdown drv (snd (shutdown drv w signal)) signal')))
       = pool_end_count (events w) + 2"
  by (simp add: shutdown_def pool_end_def Let_def emit_def console_write_def pool_end_count_def)

section \<open>The read-only execution path\<close>

text \<open>
  Claim C1, as stated, fails: when the query succeeds and the reset to read-write is
  rejected, the try block has rolled back once and the catch block rolls back again.
\<close>

theorem executeReadOnlyQuery_counterexample:
  "startsWith (toLowerCase (trim ''SELECT 1'')) ''select''
   \<and> rollback_count (events (snd (executeReadOnlyQuery
         (scripted_driver (failing_on READ_WRITE (JsError ''Error'' ''Connection lost'')))
         world0 ''SELECT 1''))) = 2"
  by code_simp

text \<open>
  Claim C1, amended.  Whenever a connection is acquired, \<open>executeReadOnlyQuery\<close> releases
  it exactly once, as its last driver call.  If moreover, in this call, neither the
  rollback that follows a successful query nor the reset to read-write after it is
  rejected, rollback is invoked exactly once, whether the switch to read-only, the
  begin and the query succeed or fail.  The condition is on the driver's answers to
  this call's own steps only.
\<close>

theorem executeReadOnlyQuery_release_and_rollback:
  assumes acq: "getConnection_reply drv (events w) = Inr c"
  shows "release_count (events (snd (executeReadOnlyQuery drv w sql))) = release_count (events w) + 1
         \<and> last (events (snd (executeReadOnlyQuery drv w sql))) = EvRelease c
         \<and> ((\<forall>v rows.
                 execute_reply drv (events w @ [EvGetConnection (Inr c)]) c READ_ONLY None = Inr v
                 \<and> beginTransaction_reply drv
                       (events w @ [EvGetConnection (Inr c), EvExecute c READ_ONLY None (Inr v)]) c
                     = None
                 \<and> execute_reply drv
                       (events w @ [EvGetConnection (Inr c), EvExecute c READ_ONLY None (Inr v),
                                    EvBeginTransaction c None]) c sql None
                     = Inr rows
                 \<longrightarrow> rollback_reply drv
                       (events w @ [EvGetConnection (Inr c), EvExecute c READ_ONLY None (Inr v),
                                    EvBeginTransaction c None, EvExecute c sql None (Inr rows)]) c
                     = None
                   \<and> (\<exists>v'. execute_reply drv
                       (events w @ [EvGetConnection (Inr c), EvExecute c READ_ONLY None (Inr v),
                                    EvBeginTransaction c None, EvExecute c sql None (Inr rows),
                                    EvRollback c None]) c READ_WRITE None
                     = Inr v'))
            \<longrightarrow> rollback_count (events (snd (executeReadOnlyQuery drv w sql)))
                  = rollback_count (events w) + 1)"
proof (intro conjI impI)
  show "release_count (events (snd (executeReadOnlyQuery drv w sql))) = release_count (events w) + 1"
    using acq
    by (simp add: executeReadOnlyQuery_def getConnection_def readOnlyTry_def execute_def
          beginTransaction_def rollback_def Let_def emit_def release_def release_count_def
        split: sum.splits option.splits prod.splits)
  show "last (events (snd (executeReadOnlyQuery drv w sql))) = EvRelease c"
    using acq
    by (simp add: executeReadOnlyQuery_def getConnection_def release_def emit_def Let_def
        split: sum.splits option.splits prod.splits)
  assume H: "\<forall>v rows.
                 execute_reply drv (events w @ [EvGetConnection (Inr c)]) c READ_ONLY None = Inr v
                 \<and> beginTransaction_reply drv
                       (events w @ [EvGetConnection (Inr c), EvExecute c READ_ONLY None (Inr v)]) c
                     = None
                 \<and> execute_reply drv
                       (events w @ [EvGetConnection (Inr c), EvExecute c READ_ONLY None (Inr v),
                                    EvBeginTransaction c None]) c sql None
                     = Inr rows
                 \<longrightarrow> rollback_reply drv
                       (events w @ [EvGetConnection (Inr c), EvExecute c READ_ONLY None (Inr v),
                                    EvBeginTransaction c None, EvExecute c sql None (Inr rows)]) c
                     = None
                   \<and> (\<exists>v'. execute_reply drv
                       (events w @ [EvGetConnection (Inr c), EvExecute c READ_ONLY None (Inr v),
                                    EvBeginTransaction c None, EvExecute c sql None (Inr rows),
                                    EvRollback c None]) c READ_WRITE None
                     = Inr v')"
  have H1: "rollback_reply drv
              (events w @ [EvGetConnection (Inr c), EvExecute c READ_ONLY None (Inr v),
                           EvBeginTransaction c None, EvExecute c sql None (Inr rows)]) c = None"
    if "execute_reply drv (events w @ [EvGetConnection (Inr c)]) c READ_ONLY None = Inr v"
       "beginTransaction_reply drv
          (events w @ [EvGetConnection (Inr c), EvExecute c READ_ONLY None (Inr v)]) c = None"
       "execute_reply drv
          (events w @ [EvGetConnection (Inr c), EvExecute c READ_ONLY None (Inr v),
                       EvBeginTransaction c None]) c sql None = Inr rows"
    for v rows
    using H that by blast
  have H2: "execute_reply drv
              (events w @ [EvGetConnection (Inr c), EvExecute c READ_ONLY None (Inr v),
                           EvBeginTransaction c None, EvExecute c sql None (Inr rows),
                           EvRollback c None]) c READ_WRITE None \<noteq> Inl e"
    if "execute_reply drv (events w @ [EvGetConnection (Inr c)]) c READ_ONLY None = Inr v"
       "beginTransaction_reply drv
          (events w @ [EvGetConnection (Inr c), EvExecute c READ_ONLY None (Inr v)]) c = None"
       "execute_reply drv
          (events w @ [EvGetConnection (Inr c), EvExecute c READ_ONLY None (Inr v),
                       EvBeginTransaction c None]) c sql None = Inr rows"
    for v rows e
  proof -
    from H that obtain v' where "execute_reply drv
              (events w @ [EvGetConnection (Inr c), EvExecute c READ_ONLY None (Inr v),
                           EvBeginTransaction c None, EvExecute c sql None (Inr rows),
                           EvRollback c None]) c READ_WRITE None = Inr v'"
      by blast
    then show ?thesis by simp
  qed
  show "rollback_count (events (snd (executeReadOnlyQuery drv w sql)))
          = rollback_count (events w) + 1"
    using acq
    by (auto simp: executeReadOnlyQuery_def getConnection_def readOnlyTry_def execute_def
          beginTransaction_def rollback_def Let_def emit_def release_def rollback_count_def
        split: sum.splits option.splits prod.splits dest: H1 H2)
qed

theorem executeReadOnlyQuery_release_and_rollback_witness:
  "getConnection_reply (scripted_driver (failing_on ''SELECT * FROM nonexistent_table''
        (JsError ''Error'' ''Table shop.nonexistent_table does not exist''))) (events world0) = Inr 0
   \<and> release_count (events (snd (executeReadOnlyQuery (scripted_driver (failing_on ''SELECT * FROM nonexistent_table''
        (JsError ''Error'' ''Table shop.nonexistent_table does not exist''))) world0
        ''SELECT * FROM nonexistent_table''))) = 1
   \<and> last (events (snd (executeReadOnlyQuery (scripted_driver (failing_on ''SELECT * FROM nonexistent_table''
        (JsError ''Error'' ''Table shop.nonexistent_table does not exist''))) world0
        ''SELECT * FROM nonexistent_table''))) = EvRelease 0
   \<and> rollback_count (events (snd (executeReadOnlyQuery (scripted_driver (failing_on ''SELECT * FROM nonexistent_table''
        (JsError ''Error'' ''Table shop.nonexistent_table does not exist''))) world0
        ''SELECT * FROM nonexistent_table''))) = 1
   \<and> fst (executeReadOnlyQuery (scripted_driver no_rows) world0 ''SELECT 1'') = Inr (JArr [])
   \<and> release_count (events (snd (executeReadOnlyQuery (scripted_driver no_rows) world0
        ''SELECT 1''))) = 1
   \<and> rollback_count (events (snd (executeReadOnlyQuery (scripted_driver no_rows) world0
        ''SELECT 1''))) = 1"
proof -
  let ?q = "''SELECT * FROM nonexistent_table''"
  let ?d = "scripted_driver (failing_on ?q
              (JsError ''Error'' ''Table shop.nonexistent_table does not exist''))"
  let ?g = "scripted_driver no_rows"
  have a: "getConnection_reply ?d (events world0) = Inr 0"
    by (simp add: scripted_driver_def)
  have a': "getConnection_reply ?g (events world0) = Inr 0"
    by (simp add: scripted_driver_def)
  have r: "rollback_reply ?d h 0 = None" "rollback_reply ?g h 0 = None" for h
    by (simp_all add: scripted_driver_def)
  have x: "execute_reply ?d h 0 READ_WRITE None = Inr (JArr [])"
          "execute_reply ?g h 0 READ_WRITE None = Inr (JArr [])" for h
    by (simp_all add: scripted_driver_def failing_on_def no_rows_def READ_WRITE_def)
  have z: "release_count (events world0) = 0 \<and> rollback_count (events world0) = 0"
    by (simp add: world0_def release_count_def rollback_count_def)
  have ok: "fst (executeReadOnlyQuery ?g world0 ''SELECT 1'') = Inr (JArr [])"
    by code_simp
  from executeReadOnlyQuery_release_and_rollback [OF a, of ?q] r x z
  have 1: "release_count (events (snd (executeReadOnlyQuery ?d world0 ?q))) = 1
           \<and> last (events (snd (executeReadOnlyQuery ?d world0 ?q))) = EvRelease 0
           \<and> rollback_count (events (snd (executeReadOnlyQuery ?d world0 ?q))) = 1"
    by simp
  from executeReadOnlyQuery_release_and_rollback [OF a', of "''SELECT 1''"] r x z
  have 2: "release_count (events (snd (executeReadOnlyQuery ?g world0 ''SELECT 1''))) = 1
           \<and> rollback_count (events (snd (executeReadOnlyQuery ?g world0 ''SELECT 1''))) = 1"
    by simp
  from a 1 ok 2 show ?thesis by simp
qed

text \<open>
  Claim C2 fails on the code.  The tool call below passes the gates; the driver rejects
  the statement; the catch block rolls back and the connection is released while its
  session is still read-only.
\<close>

theorem failed_query_releases_read_only_connection:
  "startsWith (toLowerCase (trim ''SELECT * FROM nonexistent_table'')) ''select''
   \<and> released_read_only []
        (events (snd (callTool
           (scripted_driver (failing_on ''SELECT * FROM nonexistent_table''
              (JsError ''Error'' ''Table shop.nonexistent_table does not exist'')))
           world0
           \<lparr>name = ''mysql_query'',
             arguments = Some [''sql'' \<mapsto> JStr ''SELECT * FROM nonexistent_table'']\<rparr>)))"
  by code_simp

text \<open>On the success path the session is read-write again when the connection is
  released.\<close>

lemma executeReadOnlyQuery_success_events:
  assumes acq: "getConnection_reply drv (events w) = Inr c"
      and ok: "fst (executeReadOnlyQuery drv w sql) = Inr rows"
  shows "\<exists>v v'. events (snd (executeReadOnlyQuery drv w sql))
           = events w @ [EvGetConnection (Inr c), EvExecute c READ_ONLY None (Inr v),
                         EvBeginTransaction c None, EvExecute c sql None (Inr rows),
                         EvRollback c None, EvExecute c READ_WRITE None (Inr v'),
                         EvRelease c]"
  using acq ok
  by (auto simp: executeReadOnlyQuery_def getConnection_def readOnlyTry_def execute_def
        beginTransaction_def rollback_def Let_def emit_def release_def
      split: sum.splits option.splits prod.splits)

lemma executeReadOnlyQuery_success_read_write:
  assumes acq: "getConnection_reply drv (events w) = Inr c"
      and ok: "fst (executeReadOnlyQuery drv w sql) = Inr rows"
  shows "\<not> session_read_only c (events (snd (executeReadOnlyQuery drv w sql)))"
proof -
  from executeReadOnlyQuery_success_events [OF acq ok]
  obtain v v' where "events (snd (executeReadOnlyQuery drv w sql))
           = events w @ [EvGetConnection (Inr c), EvExecute c READ_ONLY None (Inr v),
                         EvBeginTransaction c None, EvExecute c sql None (Inr rows),
                         EvRollback c None, EvExecute c READ_WRITE None (Inr v'),
                         EvRelease c]"
    by blast
  then show ?thesis
    by (simp add: session_read_only_def READ_ONLY_def READ_WRITE_def)
qed

section \<open>The read-resource handler\<close>

lemma split_js_not_Nil: "split_js sep s \<noteq> []"
  by (induction s) (auto split: list.splits)

lemma pop_nonempty: "xs \<noteq> [] \<Longrightarrow> pop xs = (Some (last xs), butlast xs)"
  by (simp add: pop_def)

lemma pop_butlast:
  "xs \<noteq> [] \<Longrightarrow> fst (pop (butlast xs))
     = (if length xs < 2 then None else Some (xs ! (length xs - 2)))"
proof -
  assume ne: "xs \<noteq> []"
  show ?thesis
  proof (cases "length xs < 2")
    case True
    with ne have "butlast xs = []" by (cases xs) auto
    with True show ?thesis by (simp add: pop_def)
  next
    case False
    then have b: "butlast xs \<noteq> []" by (cases xs) auto
    have "last (butlast xs) = butlast xs ! (length (butlast xs) - 1)"
      using b by (rule last_conv_nth)
    also have "\<dots> = xs ! (length xs - 2)"
      using False by (simp add: nth_butlast numeral_2_eq_2)
    finally show ?thesis using b False by (simp add: pop_def)
  qed
qed

lemma executeQuery_events:
  assumes "getConnection_reply drv (events w) = Inr c"
  shows "executeQuery drv w sql ps
           = (execute_reply drv (events w @ [EvGetConnection (Inr c)]) c sql (Some ps),
              w\<lparr>events := events w @
                   [EvGetConnection (Inr c),
                    EvExecute c sql (Some ps)
                      (execute_reply drv (events w @ [EvGetConnection (Inr c)]) c sql (Some ps)),
                    EvRelease c]\<rparr>)"
  using assms
  by (simp add: executeQuery_def getConnection_def execute_def release_def emit_def Let_def)

text \<open>The try block reads the parsed URL's path only.\<close>

lemma readResourceTry_unfold:
  fixes URL_new :: url_parser
  assumes "URL_new request_uri = Inr u"
  shows "readResourceTry URL_new e drv w request_uri =
     (if last (split_js CHR ''/'' (pathname u)) \<noteq> ''schema'' then
        (Inl (JsError ''Error'' ''Invalid resource URI''), w)
      else
        (case executeQuery drv w COLUMNS_SQL
                [map_option JStr (MYSQL_DB e),
                 map_option JStr (fst (pop (butlast (split_js CHR ''/'' (pathname u)))))] of
           (Inl err, w1) \<Rightarrow> (Inl err, w1)
         | (Inr results, w1) \<Rightarrow>
             (Inr \<lparr> contents = [\<lparr> uri = request_uri,
                                   mimeType = ''application/json'',
                                   resource_text = JSON_stringify2 results \<rparr>] \<rparr>, w1)))"
  using assms
  by (simp add: readResourceTry_def Let_def pop_nonempty split_js_not_Nil split: prod.splits)

text \<open>
  Claim C6.  For a URI that the parser accepts, let the segments be the path split at
  the slash.  If the last segment is not \<^verbatim>\<open>schema\<close>, the request fails with the error
  \<^verbatim>\<open>Invalid resource URI\<close> (logged and rethrown) and no driver call is made.  Otherwise,
  once a connection is acquired, the one statement executed is the catalog column
  query, bound to the configured database and to the second-to-last segment
  (\<^verbatim>\<open>undefined\<close> when the path has a single segment), and the connection is released;
  when the query answers with no rows the response is the single content block whose
  text is the empty JSON array.
\<close>

theorem readResource_schema_segment:
  fixes URL_new :: url_parser
  assumes parse: "URL_new request_uri = Inr u"
      and segs: "segs = split_js CHR ''/'' (pathname u)"
  shows "(last segs \<noteq> ''schema'' \<longrightarrow>
            readResource URL_new e drv w request_uri
              = (Inl (JsError ''Error'' ''Invalid resource URI''),
                 console_write w (LogError ''Error in ReadResourceRequestSchema:''
                                    (JsError ''Error'' ''Invalid resource URI''))))
         \<and> (last segs = ''schema'' \<longrightarrow>
              (\<forall>c ps reply.
                  getConnection_reply drv (events w) = Inr c
                  \<and> ps = [map_option JStr (MYSQL_DB e),
                           if length segs < 2 then None
                           else Some (JStr (segs ! (length segs - 2)))]
                  \<and> reply = execute_reply drv (events w @ [EvGetConnection (Inr c)]) c
                              COLUMNS_SQL (Some ps) \<longrightarrow>
                  events (snd (readResource URL_new e drv w request_uri))
                    = events w @ [EvGetConnection (Inr c),
                                  EvExecute c COLUMNS_SQL (Some ps) reply,
                                  EvRelease c]
                  \<and> (reply = Inr (JArr []) \<longrightarrow>
                        fst (readResource URL_new e drv w request_uri)
                          = Inr \<lparr>contents = [\<lparr>uri = request_uri,
                                               mimeType = ''application/json'',
                                               resource_text = ''[]''\<rparr>]\<rparr>)))"
proof (intro conjI impI allI)
  assume "last segs \<noteq> ''schema''"
  then show "readResource URL_new e drv w request_uri
              = (Inl (JsError ''Error'' ''Invalid resource URI''),
                 console_write w (LogError ''Error in ReadResourceRequestSchema:''
                                    (JsError ''Error'' ''Invalid resource URI'')))"
    using segs by (simp add: readResource_def readResourceTry_unfold [where URL_new = URL_new, OF parse])
next
  fix c ps reply
  assume sch: "last segs = ''schema''"
     and h: "getConnection_reply drv (events w) = Inr c
                  \<and> ps = [map_option JStr (MYSQL_DB e),
                           if length segs < 2 then None
                           else Some (JStr (segs ! (length segs - 2)))]
                  \<and> reply = execute_reply drv (events w @ [EvGetConnection (Inr c)]) c
                              COLUMNS_SQL (Some ps)"
  have ne: "segs \<noteq> []" using segs by (simp add: split_js_not_Nil)
  have tbl: "map_option JStr (fst (pop (butlast segs)))
               = (if length segs < 2 then None else Some (JStr (segs ! (length segs - 2))))"
    by (simp add: pop_butlast [OF ne])
  have body: "readResourceTry URL_new e drv w request_uri =
        (case executeQuery drv w COLUMNS_SQL ps of
           (Inl err, w1) \<Rightarrow> (Inl err, w1)
         | (Inr results, w1) \<Rightarrow>
             (Inr \<lparr> contents = [\<lparr> uri = request_uri,
                                   mimeType = ''application/json'',
                                   resource_text = JSON_stringify2 results \<rparr>] \<rparr>, w1))"
    using sch h tbl segs by (simp add: readResourceTry_unfold [where URL_new = URL_new, OF parse])
  have q: "executeQuery drv w COLUMNS_SQL ps
             = (reply, w\<lparr>events := events w @ [EvGetConnection (Inr c),
                                                   EvExecute c COLUMNS_SQL (Some ps) reply,
                                                   EvRelease c]\<rparr>)"
    using h executeQuery_events [of drv w c COLUMNS_SQL ps] by simp
  show "events (snd (readResource URL_new e drv w request_uri))
                    = events w @ [EvGetConnection (Inr c),
                                  EvExecute c COLUMNS_SQL (Some ps) reply,
                                  EvRelease c]"
    by (simp add: readResource_def body q events_console_write split: sum.splits)
  assume "reply = Inr (JArr [])"
  then show "fst (readResource URL_new e drv w request_uri)
                          = Inr \<lparr>contents = [\<lparr>uri = request_uri,
                                               mimeType = ''application/json'',
                                               resource_text = ''[]''\<rparr>]\<rparr>"
    by (simp add: readResource_def body q JSON_stringify2_def)
qed

theorem readResource_schema_segment_witness:
  "sample_URL ''mysql://shop/orders/columns''
     = Inr \<lparr>hostname = ''shop'', pathname = ''/orders/columns''\<rparr>
   \<and> readResource sample_URL
        \<lparr>MYSQL_HOST = Some ''localhost'', MYSQL_PORT = Some ''8889'', MYSQL_USER = Some ''root'',
          MYSQL_PASS = Some ''root'', MYSQL_DB = Some ''shop'', MYSQL_SOCKET = None,
          MYSQL_POOL_LIMIT = None\<rparr>
        (scripted_driver no_rows) world0 ''mysql://shop/orders/columns''
     = (Inl (JsError ''Error'' ''Invalid resource URI''),
        console_write world0 (LogError ''Error in ReadResourceRequestSchema:''
                                (JsError ''Error'' ''Invalid resource URI'')))
   \<and> sample_URL ''mysql://shop/no_such_table/schema''
     = Inr \<lparr>hostname = ''shop'', pathname = ''/no_such_table/schema''\<rparr>
   \<and> events (snd (readResource sample_URL
        \<lparr>MYSQL_HOST = Some ''localhost'', MYSQL_PORT = Some ''8889'', MYSQL_USER = Some ''root'',
          MYSQL_PASS = Some ''root'', MYSQL_DB = Some ''shop'', MYSQL_SOCKET = None,
          MYSQL_POOL_LIMIT = None\<rparr>
        (scripted_driver no_rows) world0 ''mysql://shop/no_such_table/schema''))
     = [EvGetConnection (Inr 0),
        EvExecute 0 COLUMNS_SQL (Some [Some (JStr ''shop''), Some (JStr ''no_such_table'')])
          (Inr (JArr [])),
        EvRelease 0]
   \<and> fst (readResource sample_URL
        \<lparr>MYSQL_HOST = Some ''localhost'', MYSQL_PORT = Some ''8889'', MYSQL_USER = Some ''root'',
          MYSQL_PASS = Some ''root'', MYSQL_DB = Some ''shop'', MYSQL_SOCKET = None,
          MYSQL_POOL_LIMIT = None\<rparr>
        (scripted_driver no_rows) world0 ''mysql://shop/no_such_table/schema'')
     = Inr \<lparr>contents = [\<lparr>uri = ''mysql://shop/no_such_table/schema'',
                          mimeType = ''application/json'', resource_text = ''[]''\<rparr>]\<rparr>"
proof -
  let ?e = "\<lparr>MYSQL_HOST = Some ''localhost'', MYSQL_PORT = Some ''8889'', MYSQL_USER = Some ''root'',
          MYSQL_PASS = Some ''root'', MYSQL_DB = Some ''shop'', MYSQL_SOCKET = None,
          MYSQL_POOL_LIMIT = None\<rparr>"
  let ?d = "scripted_driver no_rows"
  have p1: "sample_URL ''mysql://shop/orders/columns''
              = Inr \<lparr>hostname = ''shop'', pathname = ''/orders/columns''\<rparr>"
    by code_simp
  have s1: "[[], ''orders'', ''columns'']
              = split_js CHR ''/'' (pathname \<lparr>hostname = ''shop'', pathname = ''/orders/columns''\<rparr>)"
    by simp
  have p2: "sample_URL ''mysql://shop/no_such_table/schema''
              = Inr \<lparr>hostname = ''shop'', pathname = ''/no_such_table/schema''\<rparr>"
    by code_simp
  have s2: "[[], ''no_such_table'', ''schema'']
              = split_js CHR ''/'' (pathname \<lparr>hostname = ''shop'', pathname = ''/no_such_table/schema''\<rparr>)"
    by simp
  have g: "getConnection_reply ?d (events world0) = Inr 0"
    by (simp add: scripted_driver_def)
  have r: "execute_reply ?d h 0 COLUMNS_SQL ps = Inr (JArr [])" for h ps
    by (simp add: scripted_driver_def no_rows_def)
  have e0: "events world0 = []"
    by (simp add: world0_def)
  from readResource_schema_segment [where URL_new = sample_URL, OF p1 s1, of ?e ?d world0]
  have a: "readResource sample_URL ?e ?d world0 ''mysql://shop/orders/columns''
     = (Inl (JsError ''Error'' ''Invalid resource URI''),
        console_write world0 (LogError ''Error in ReadResourceRequestSchema:''
                                (JsError ''Error'' ''Invalid resource URI'')))"
    by simp
  from readResource_schema_segment [where URL_new = sample_URL, OF p2 s2, of ?e ?d world0] g r e0
  have b: "events (snd (readResource sample_URL ?e ?d world0 ''mysql://shop/no_such_table/schema''))
     = [EvGetConnection (Inr 0),
        EvExecute 0 COLUMNS_SQL (Some [Some (JStr ''shop''), Some (JStr ''no_such_table'')])
          (Inr (JArr [])),
        EvRelease 0]
     \<and> fst (readResource sample_URL ?e ?d world0 ''mysql://shop/no_such_table/schema'')
     = Inr \<lparr>contents = [\<lparr>uri = ''mysql://shop/no_such_table/schema'',
                          mimeType = ''application/json'', resource_text = ''[]''\<rparr>]\<rparr>"
    by simp
  from p1 a p2 b show ?thesis by simp
qed

text \<open>
  Claim C10, as stated, fails: the response carries the request's own URI in its \<open>uri\<close>
  field, so two URIs that name different databases and the same table do not produce
  the same response.
\<close>

theorem readResource_ignores_authority_counterexample:
  "sample_URL ''mysql://warehouse/orders/schema''
     = Inr \<lparr>hostname = ''warehouse'', pathname = ''/orders/schema''\<rparr>
   \<and> sample_URL ''mysql://shop/orders/schema''
     = Inr \<lparr>hostname = ''shop'', pathname = ''/orders/schema''\<rparr>
   \<and> fst (readResource sample_URL
        \<lparr>MYSQL_HOST = Some ''localhost'', MYSQL_PORT = Some ''8889'', MYSQL_USER = Some ''root'',
          MYSQL_PASS = Some ''root'', MYSQL_DB = Some ''shop'', MYSQL_SOCKET = None,
          MYSQL_POOL_LIMIT = None\<rparr>
        (scripted_driver no_rows) world0 ''mysql://warehouse/orders/schema'')
     \<noteq> fst (readResource sample_URL
        \<lparr>MYSQL_HOST = Some ''localhost'', MYSQL_PORT = Some ''8889'', MYSQL_USER = Some ''root'',
          MYSQL_PASS = Some ''root'', MYSQL_DB = Some ''shop'', MYSQL_SOCKET = None,
          MYSQL_POOL_LIMIT = None\<rparr>
        (scripted_driver no_rows) world0 ''mysql://shop/orders/schema'')"
  by code_simp

text \<open>
  Claim C10, amended.  The handler reads the path of the parsed URI and nothing else of
  it.  Take two URIs whose last path segment is \<^verbatim>\<open>schema\<close> and whose second-to-last
  segments agree, whatever their authority components and the rest of their paths
  are.  Both lead to the same driver calls and the same final world, and to the same
  outcome but for the \<open>uri\<close> field, which holds each request's own URI.  Once a
  connection is acquired, the handler executes the catalog column query bound to the
  configured \<^verbatim>\<open>MYSQL_DB\<close> and to that table segment, releases the connection, and
  returns the query's error, or the one content block whose text is the serialised
  rows.
\<close>

theorem readResource_ignores_authority:
  fixes URL_new :: url_parser
  assumes p1: "URL_new uri1 = Inr u1"
      and p2: "URL_new uri2 = Inr u2"
      and s1: "segs1 = split_js CHR ''/'' (pathname u1)"
      and s2: "segs2 = split_js CHR ''/'' (pathname u2)"
      and l1: "last segs1 = ''schema''"
      and l2: "last segs2 = ''schema''"
      and t1: "table = (if length segs1 < 2 then None
                        else Some (JStr (segs1 ! (length segs1 - 2))))"
      and t2: "table = (if length segs2 < 2 then None
                        else Some (JStr (segs2 ! (length segs2 - 2))))"
  shows "snd (readResource URL_new e drv w uri1) = snd (readResource URL_new e drv w uri2)
         \<and> fst (readResource URL_new e drv w uri1)
             = map_sum id (\<lambda>r. \<lparr>contents = map (\<lambda>c. c\<lparr>uri := uri1\<rparr>) (contents r)\<rparr>)
                 (fst (readResource URL_new e drv w uri2))
         \<and> (\<forall>c ps reply.
               getConnection_reply drv (events w) = Inr c
               \<and> ps = [map_option JStr (MYSQL_DB e), table]
               \<and> reply = execute_reply drv (events w @ [EvGetConnection (Inr c)]) c
                           COLUMNS_SQL (Some ps) \<longrightarrow>
               events (snd (readResource URL_new e drv w uri1))
                 = events w @ [EvGetConnection (Inr c),
                               EvExecute c COLUMNS_SQL (Some ps) reply,
                               EvRelease c]
               \<and> fst (readResource URL_new e drv w uri1)
                 = map_sum id
                     (\<lambda>results. \<lparr>contents = [\<lparr>uri = uri1, mimeType = ''application/json'',
                                                resource_text = JSON_stringify2 results\<rparr>]\<rparr>)
                     reply)"
proof -
  let ?ps = "[map_option JStr (MYSQL_DB e), table]"
  have ne1: "segs1 \<noteq> []" and ne2: "segs2 \<noteq> []"
    using s1 s2 by (simp_all add: split_js_not_Nil)
  have tb1: "map_option JStr (fst (pop (butlast segs1))) = table"
    using t1 by (simp add: pop_butlast [OF ne1])
  have tb2: "map_option JStr (fst (pop (butlast segs2))) = table"
    using t2 by (simp add: pop_butlast [OF ne2])
  have body: "readResourceTry URL_new e drv w u =
        (case executeQuery drv w COLUMNS_SQL ?ps of
           (Inl err, w1) \<Rightarrow> (Inl err, w1)
         | (Inr results, w1) \<Rightarrow>
             (Inr \<lparr> contents = [\<lparr> uri = u,
                                   mimeType = ''application/json'',
                                   resource_text = JSON_stringify2 results \<rparr>] \<rparr>, w1))"
    if "u = uri1 \<or> u = uri2" for u
    using that l1 l2 tb1 tb2 s1 s2
      readResourceTry_unfold [where URL_new = URL_new, OF p1, of e drv w]
      readResourceTry_unfold [where URL_new = URL_new, OF p2, of e drv w]
    by auto
  have A: "snd (readResource URL_new e drv w uri1) = snd (readResource URL_new e drv w uri2)"
    by (simp add: readResource_def body split: sum.splits prod.splits)
  have B: "fst (readResource URL_new e drv w uri1)
             = map_sum id (\<lambda>r. \<lparr>contents = map (\<lambda>c. c\<lparr>uri := uri1\<rparr>) (contents r)\<rparr>)
                 (fst (readResource URL_new e drv w uri2))"
    by (simp add: readResource_def body split: sum.splits prod.splits)
  have C: "events (snd (readResource URL_new e drv w uri1))
                 = events w @ [EvGetConnection (Inr c),
                               EvExecute c COLUMNS_SQL (Some ps) reply,
                               EvRelease c]
               \<and> fst (readResource URL_new e drv w uri1)
                 = map_sum id
                     (\<lambda>results. \<lparr>contents = [\<lparr>uri = uri1, mimeType = ''application/json'',
                                                resource_text = JSON_stringify2 results\<rparr>]\<rparr>)
                     reply"
    if h: "getConnection_reply drv (events w) = Inr c
               \<and> ps = [map_option JStr (MYSQL_DB e), table]
               \<and> reply = execute_reply drv (events w @ [EvGetConnection (Inr c)]) c
                           COLUMNS_SQL (Some ps)" for c ps reply
  proof -
    have q: "executeQuery drv w COLUMNS_SQL ?ps
             = (reply, w\<lparr>events := events w @ [EvGetConnection (Inr c),
                                                   EvExecute c COLUMNS_SQL (Some ps) reply,
                                                   EvRelease c]\<rparr>)"
      using h executeQuery_events [of drv w c COLUMNS_SQL ?ps] by simp
    show ?thesis
      by (simp add: readResource_def body q events_console_write split: sum.splits)
  qed
  from A B C show ?thesis by blast
qed

theorem readResource_ignores_authority_witness:
  "sample_URL ''mysql://warehouse/orders/schema''
     = Inr \<lparr>hostname = ''warehouse'', pathname = ''/orders/schema''\<rparr>
   \<and> sample_URL ''mysql://shop/orders/schema''
     = Inr \<lparr>hostname = ''shop'', pathname = ''/orders/schema''\<rparr>
   \<and> snd (readResource sample_URL
        \<lparr>MYSQL_HOST = Some ''localhost'', MYSQL_PORT = Some ''8889'', MYSQL_USER = Some ''root'',
          MYSQL_PASS = Some ''root'', MYSQL_DB = Some ''shop'', MYSQL_SOCKET = None,
          MYSQL_POOL_LIMIT = None\<rparr>
        (scripted_driver no_rows) world0 ''mysql://warehouse/orders/schema'')
     = snd (readResource sample_URL
        \<lparr>MYSQL_HOST = Some ''localhost'', MYSQL_PORT = Some ''8889'', MYSQL_USER = Some ''root'',
          MYSQL_PASS = Some ''root'', MYSQL_DB = Some ''shop'', MYSQL_SOCKET = None,
          MYSQL_POOL_LIMIT = None\<rparr>
        (scripted_driver no_rows) world0 ''mysql://shop/orders/schema'')
   \<and> events (snd (readResource sample_URL
        \<lparr>MYSQL_HOST = Some ''localhost'', MYSQL_PORT = Some ''8889'', MYSQL_USER = Some ''root'',
          MYSQL_PASS = Some ''root'', MYSQL_DB = Some ''shop'', MYSQL_SOCKET = None,
          MYSQL_POOL_LIMIT = None\<rparr>
        (scripted_driver no_rows) world0 ''mysql://warehouse/orders/schema''))
     = [EvGetConnection (Inr 0),
        EvExecute 0 COLUMNS_SQL (Some [Some (JStr ''shop''), Some (JStr ''orders'')])
          (Inr (JArr [])),
        EvRelease 0]
   \<and> fst (readResource sample_URL
        \<lparr>MYSQL_HOST = Some ''localhost'', MYSQL_PORT = Some ''8889'', MYSQL_USER = Some ''root'',
          MYSQL_PASS = Some ''root'', MYSQL_DB = Some ''shop'', MYSQL_SOCKET = None,
          MYSQL_POOL_LIMIT = None\<rparr>
        (scripted_driver no_rows) world0 ''mysql://warehouse/orders/schema'')
     = Inr \<lparr>contents = [\<lparr>uri = ''mysql://warehouse/orders/schema'',
                          mimeType = ''application/json'', resource_text = ''[]''\<rparr>]\<rparr>"
proof -
  let ?e = "\<lparr>MYSQL_HOST = Some ''localhost'', MYSQL_PORT = Some ''8889'', MYSQL_USER = Some ''root'',
          MYSQL_PASS = Some ''root'', MYSQL_DB = Some ''shop'', MYSQL_SOCKET = None,
          MYSQL_POOL_LIMIT = None\<rparr>"
  let ?d = "scripted_driver no_rows"
  let ?segs = "[[], ''orders'', ''schema'']"
  have p1: "sample_URL ''mysql://warehouse/orders/schema''
              = Inr \<lparr>hostname = ''warehouse'', pathname = ''/orders/schema''\<rparr>"
    by code_simp
  have p2: "sample_URL ''mysql://shop/orders/schema''
              = Inr \<lparr>hostname = ''shop'', pathname = ''/orders/schema''\<rparr>"
    by code_simp
  have s1: "?segs = split_js CHR ''/'' (pathname \<lparr>hostname = ''warehouse'', pathname = ''/orders/schema''\<rparr>)"
    by simp
  have s2: "?segs = split_js CHR ''/'' (pathname \<lparr>hostname = ''shop'', pathname = ''/orders/schema''\<rparr>)"
    by simp
  have l: "last ?segs = ''schema''"
    by simp
  have t: "Some (JStr ''orders'')
             = (if length ?segs < 2 then None else Some (JStr (?segs ! (length ?segs - 2))))"
    by simp
  have g: "getConnection_reply ?d (events world0) = Inr 0"
    by (simp add: scripted_driver_def)
  have r: "execute_reply ?d h 0 COLUMNS_SQL ps = Inr (JArr [])" for h ps
    by (simp add: scripted_driver_def no_rows_def)
  have e0: "events world0 = []"
    by (simp add: world0_def)
  note T = readResource_ignores_authority
         [where URL_new = sample_URL, OF p1 p2 s1 s2 l l t t, of ?e ?d world0]
  note T3 = T [THEN conjunct2, THEN conjunct2, rule_format,
               of 0 "[Some (JStr ''shop''), Some (JStr ''orders'')]" "Inr (JArr [])"]
  from T [THEN conjunct1] T3 g r e0
  have "snd (readResource sample_URL ?e ?d world0 ''mysql://warehouse/orders/schema'')
          = snd (readResource sample_URL ?e ?d world0 ''mysql://shop/orders/schema'')
     \<and> events (snd (readResource sample_URL ?e ?d world0 ''mysql://warehouse/orders/schema''))
     = [EvGetConnection (Inr 0),
        EvExecute 0 COLUMNS_SQL (Some [Some (JStr ''shop''), Some (JStr ''orders'')])
          (Inr (JArr [])),
        EvRelease 0]
     \<and> fst (readResource sample_URL ?e ?d world0 ''mysql://warehouse/orders/schema'')
     = Inr \<lparr>contents = [\<lparr>uri = ''mysql://warehouse/orders/schema'',
                          mimeType = ''application/json'', resource_text = ''[]''\<rparr>]\<rparr>"
    by (simp add: JSON_stringify2_def)
  with p1 p2 show ?thesis
    by (elim conjE, intro conjI) assumption+
qed

end
